theory Spec2Isabelle
  imports
    Main
    "HOL-Library.AList"
    "HOL-Library.Sublist"
    "HOL-Library.Char_ord"
    "HOL-Library.List_Lexorder"
    "HOL-Library.Multiset"
begin

section \<open>Strings\<close>

text \<open>
  A Python \<^verbatim>\<open>str\<close> is modelled as a \<^typ>\<open>string\<close> holding its UTF-8 encoding.
  The order of \<^verbatim>\<open>HOL-Library.List_Lexorder\<close> over \<^verbatim>\<open>HOL-Library.Char_ord\<close> is
  the lexicographic order of the bytes, which on UTF-8 is Python's order by code points,
  and \<^const>\<open>sublist\<close> (a contiguous run) is Python's \<^verbatim>\<open>needle in haystack\<close>.
  \<^verbatim>\<open>str.lower\<close> and \<^verbatim>\<open>str.isalnum\<close> are modelled on the ASCII letters and digits:
  every other byte is left alone by \<open>lower\<close> and is not alphanumeric. The model is
  exact on the strings whose letters and digits are ASCII, and on the Chinese keywords of
  the query agent, which have no case.
\<close>

definition isupper_char :: "char \<Rightarrow> bool" where
  "isupper_char c = (CHR ''A'' \<le> c \<and> c \<le> CHR ''Z'')"

definition islower_char :: "char \<Rightarrow> bool" where
  "islower_char c = (CHR ''a'' \<le> c \<and> c \<le> CHR ''z'')"

definition isdigit_char :: "char \<Rightarrow> bool" where
  "isdigit_char c = (CHR ''0'' \<le> c \<and> c \<le> CHR ''9'')"

definition lower_char :: "char \<Rightarrow> char" where
  "lower_char c = (if isupper_char c then char_of (of_char c + (32::nat)) else c)"

definition lower :: "string \<Rightarrow> string" where
  "lower s = map lower_char s"

definition isalnum :: "string \<Rightarrow> bool" where
  \<comment> \<open>\<^verbatim>\<open>str.isalnum()\<close>: at least one character, and all of them letters or digits\<close>
  "isalnum s = (s \<noteq> [] \<and> list_all (\<lambda>c. isupper_char c \<or> islower_char c \<or> isdigit_char c) s)"

section \<open>The data model (student\_model.py)\<close>

record student =
  sid :: string
  name :: string
  age :: int
  gender :: string
  major :: string

text \<open>
  The exception classes. \<^verbatim>\<open>StudentError\<close> carries its message, the two subclasses the
  student id their message is built from. \<^verbatim>\<open>KeyError\<close> is Python's own, raised by a
  subscript on a missing dictionary key.
\<close>

datatype exn =
    StudentError string
  | StudentAlreadyExistsError string
  | StudentNotFoundError string
  | KeyError string

text \<open>
  \<^verbatim>\<open>self._students\<close>, a \<^verbatim>\<open>dict[str, Student]\<close>. A Python dictionary keeps its
  keys in insertion order, and \<^verbatim>\<open>values()\<close> is read in that order, so the store is an
  association list: \<^const>\<open>AList.update\<close> overwrites a present key in place and appends
  an absent one, as \<^verbatim>\<open>d[k] = v\<close> does. A dictionary has no key twice
  (\<open>dict_ok\<close>).
\<close>

type_synonym store = "(string \<times> student) list"


definition contains_key :: "store \<Rightarrow> string \<Rightarrow> bool" where
  \<comment> \<open>\<^verbatim>\<open>k in d\<close>\<close>
  "contains_key st k = (k \<in> set (map fst st))"


section \<open>The manager (student\_manager.py)\<close>

subsection \<open>Validation\<close>

text \<open>
  \<^verbatim>\<open>_validate_student_data(self, sid: str, name: str, age: int, gender: str, major: str)\<close>.
  The arguments have their annotated types, so \<^verbatim>\<open>isinstance(age, int)\<close> holds of
  every \<open>age\<close> and only the range test is left of the third rule. A Python string is
  true when it is not empty.
\<close>

definition validate_student_data ::
  "string \<Rightarrow> string \<Rightarrow> int \<Rightarrow> string \<Rightarrow> string \<Rightarrow> exn + bool" where
  "validate_student_data sid' name' age' gender' major' =
     (if \<not> (sid' \<noteq> [] \<and> isalnum sid') then
        Inl (StudentError ''ID must be non-empty alphanumeric.'')
      else if \<not> (name' \<noteq> [] \<and> length name' > 0) then
        Inl (StudentError ''Name cannot be empty.'')
      else if \<not> (1 \<le> age' \<and> age' \<le> 150) then
        Inl (StudentError ''Age must be an integer between 1-150.'')
      else if gender' \<notin> set [''Male'', ''Female''] then
        Inl (StudentError ''Gender must be 'Male' or 'Female'.'')
      else if \<not> (major' \<noteq> [] \<and> length major' > 0) then
        Inl (StudentError ''Major cannot be empty.'')
      else Inr True)"

subsection \<open>Create, read, update, delete\<close>

text \<open>
  Every operation that can change the store returns the outcome of the call (\<open>Inl\<close> the
  exception raised, \<open>Inr\<close> normal return) together with the store as the call leaves it.
\<close>

definition add_student :: "store \<Rightarrow> student \<Rightarrow> (exn + unit) \<times> store" where
  "add_student st s =
     (if contains_key st (sid s) then (Inl (StudentAlreadyExistsError (sid s)), st)
      else (case validate_student_data (sid s) (name s) (age s) (gender s) (major s) of
              Inl e \<Rightarrow> (Inl e, st)
            | Inr _ \<Rightarrow> (Inr (), AList.update (sid s) s st)))"

definition query_student_by_id :: "store \<Rightarrow> string \<Rightarrow> exn + student" where
  "query_student_by_id st k =
     (case map_of st k of None \<Rightarrow> Inl (StudentNotFoundError k) | Some s \<Rightarrow> Inr s)"


text \<open>
  \<^verbatim>\<open>modify_student(self, sid: str, updates: dict)\<close>. The dictionary of updates is read
  only at the four keys of \<^verbatim>\<open>temp_data\<close>; an entry under any other key (\<^verbatim>\<open>'sid'\<close>
  for one) is skipped by the loop. The record below holds the value under each of the four
  keys, if there is one, with the type of the field it replaces, and the skipped entries.
\<close>

record updates =
  u_name :: "string option"
  u_age :: "int option"
  u_gender :: "string option"
  u_major :: "string option"
  u_other :: "(string \<times> string) list"

text \<open>
  The student object is changed in place only after the validation has passed, and is then
  stored again under the key it was found at. Records are values here: the object's fields
  change for the store's entry, and what else may hold a reference to it is outside the model.
\<close>

definition modify_student :: "store \<Rightarrow> string \<Rightarrow> updates \<Rightarrow> (exn + unit) \<times> store" where
  "modify_student st k upd =
     (case query_student_by_id st k of
        Inl e \<Rightarrow> (Inl e, st)
      | Inr s \<Rightarrow>
          let temp_name = (case u_name upd of None \<Rightarrow> name s | Some v \<Rightarrow> v);
              temp_age = (case u_age upd of None \<Rightarrow> age s | Some v \<Rightarrow> v);
              temp_gender = (case u_gender upd of None \<Rightarrow> gender s | Some v \<Rightarrow> v);
              temp_major = (case u_major upd of None \<Rightarrow> major s | Some v \<Rightarrow> v)
          in (case validate_student_data (sid s) temp_name temp_age temp_gender temp_major of
                Inl e \<Rightarrow> (Inl e, st)
              | Inr _ \<Rightarrow>
                  (Inr (),
                   AList.update k
                     (s\<lparr>name := temp_name, age := temp_age,
                        gender := temp_gender, major := temp_major\<rparr>) st)))"

definition delete_student :: "store \<Rightarrow> string \<Rightarrow> (exn + unit) \<times> store" where
  "delete_student st k =
     (if \<not> contains_key st k then (Inl (StudentNotFoundError k), st)
      else (Inr (), AList.delete k st))"



subsection \<open>The query by natural language\<close>

text \<open>
  The dictionary the query agent returns is read at five keys. It is modelled by a record
  with one optional field for each: \<open>None\<close> when the key is absent, and the value with
  the type the filter compares it at otherwise.
\<close>

record query_params =
  q_major :: "string option"
  q_gender :: "string option"
  q_age_min :: "int option"
  q_age_max :: "int option"
  q_name_part :: "string option"

definition no_params :: query_params where
  \<comment> \<open>the empty dictionary\<close>
  "no_params = \<lparr>q_major = None, q_gender = None, q_age_min = None, q_age_max = None,
                 q_name_part = None\<rparr>"

text \<open>
  The agent is injected into the manager, so it is a parameter: any function from the text
  to a parameter mapping or an exception.
\<close>

definition query_by_natural_language ::
  "(string \<Rightarrow> exn + query_params) \<Rightarrow> store \<Rightarrow> string \<Rightarrow> exn + student list" where
  "query_by_natural_language parse st natural_language_text =
     (case parse natural_language_text of
        Inl e \<Rightarrow> Inl e
      | Inr qp \<Rightarrow>
          let results = map snd st;
              results = (case q_major qp of None \<Rightarrow> results
                         | Some v \<Rightarrow> filter (\<lambda>s. major s = v) results);
              results = (case q_gender qp of None \<Rightarrow> results
                         | Some v \<Rightarrow> filter (\<lambda>s. gender s = v) results);
              results = (case q_age_min qp of None \<Rightarrow> results
                         | Some v \<Rightarrow> filter (\<lambda>s. age s \<ge> v) results);
              results = (case q_age_max qp of None \<Rightarrow> results
                         | Some v \<Rightarrow> filter (\<lambda>s. age s \<le> v) results);
              results = (case q_name_part qp of None \<Rightarrow> results
                         | Some v \<Rightarrow> filter (\<lambda>s. sublist (lower v) (lower (name s))) results)
          in Inr results)"

section \<open>The query agent (llm\_query\_agent.py)\<close>

text \<open>The Chinese keywords of the agent, in UTF-8.\<close>

definition zh_greater_than_20 :: string where
  \<comment> \<open>U+5927 U+4E8E, then 20\<close>
  "zh_greater_than_20 = [CHR 0xE5, CHR 0xA4, CHR 0xA7, CHR 0xE4, CHR 0xBA, CHR 0x8E] @ ''20''"

definition zh_20_and_above :: string where
  \<comment> \<open>20, then U+5C81 U+4EE5 U+4E0A\<close>
  "zh_20_and_above =
     ''20'' @ [CHR 0xE5, CHR 0xB2, CHR 0x81, CHR 0xE4, CHR 0xBB, CHR 0xA5, CHR 0xE4, CHR 0xB8, CHR 0x8A]"

definition zh_less_than_18 :: string where
  \<comment> \<open>U+5C0F U+4E8E, then 18\<close>
  "zh_less_than_18 = [CHR 0xE5, CHR 0xB0, CHR 0x8F, CHR 0xE4, CHR 0xBA, CHR 0x8E] @ ''18''"

definition zh_18_and_below :: string where
  \<comment> \<open>18, then U+5C81 U+4EE5 U+4E0B\<close>
  "zh_18_and_below =
     ''18'' @ [CHR 0xE5, CHR 0xB2, CHR 0x81, CHR 0xE4, CHR 0xBB, CHR 0xA5, CHR 0xE4, CHR 0xB8, CHR 0x8B]"

definition zh_girl :: string where
  \<comment> \<open>U+5973 U+751F\<close>
  "zh_girl = [CHR 0xE5, CHR 0xA5, CHR 0xB3, CHR 0xE7, CHR 0x94, CHR 0x9F]"

definition zh_female :: string where
  \<comment> \<open>U+5973 U+6027\<close>
  "zh_female = [CHR 0xE5, CHR 0xA5, CHR 0xB3, CHR 0xE6, CHR 0x80, CHR 0xA7]"

definition zh_boy :: string where
  \<comment> \<open>U+7537 U+751F\<close>
  "zh_boy = [CHR 0xE7, CHR 0x94, CHR 0xB7, CHR 0xE7, CHR 0x94, CHR 0x9F]"

definition zh_male :: string where
  \<comment> \<open>U+7537 U+6027\<close>
  "zh_male = [CHR 0xE7, CHR 0x94, CHR 0xB7, CHR 0xE6, CHR 0x80, CHR 0xA7]"

definition zh_computer :: string where
  \<comment> \<open>U+8BA1 U+7B97 U+673A\<close>
  "zh_computer = [CHR 0xE8, CHR 0xAE, CHR 0xA1, CHR 0xE7, CHR 0xAE, CHR 0x97, CHR 0xE6, CHR 0x9C, CHR 0xBA]"

definition zh_software_engineering :: string where
  \<comment> \<open>U+8F6F U+4EF6 U+5DE5 U+7A0B\<close>
  "zh_software_engineering =
     [CHR 0xE8, CHR 0xBD, CHR 0xAF, CHR 0xE4, CHR 0xBB, CHR 0xB6,
      CHR 0xE5, CHR 0xB7, CHR 0xA5, CHR 0xE7, CHR 0xA8, CHR 0x8B]"

definition zh_finance :: string where
  \<comment> \<open>U+91D1 U+878D\<close>
  "zh_finance = [CHR 0xE9, CHR 0x87, CHR 0x91, CHR 0xE8, CHR 0x9E, CHR 0x8D]"

definition zh_about :: string where
  \<comment> \<open>U+5173 U+4E8E\<close>
  "zh_about = [CHR 0xE5, CHR 0x85, CHR 0xB3, CHR 0xE4, CHR 0xBA, CHR 0x8E]"

definition zh_who_is :: string where
  \<comment> \<open>U+8C01 U+662F\<close>
  "zh_who_is = [CHR 0xE8, CHR 0xB0, CHR 0x81, CHR 0xE6, CHR 0x98, CHR 0xAF]"

text \<open>
  Steps 1 to 3 of \<^verbatim>\<open>parse_query\<close>: the dictionary built from the lowered text.
\<close>

definition extract_params :: "string \<Rightarrow> query_params" where
  "extract_params text =
     (let query_params = no_params;
          query_params =
            (if sublist ''greater than 20'' text \<or> sublist ''over 20'' text \<or> sublist ''20+'' text
                \<or> sublist zh_greater_than_20 text \<or> sublist zh_20_and_above text
             then query_params\<lparr>q_age_min := Some 20\<rparr> else query_params);
          query_params =
            (if sublist ''less than 18'' text \<or> sublist ''under 18'' text
                \<or> sublist zh_less_than_18 text \<or> sublist zh_18_and_below text
             then query_params\<lparr>q_age_max := Some 18\<rparr> else query_params);
          query_params =
            (if sublist ''female'' text \<or> sublist ''girl'' text
                \<or> sublist zh_girl text \<or> sublist zh_female text
             then query_params\<lparr>q_gender := Some ''Female''\<rparr>
             else if sublist ''male'' text \<or> sublist ''boy'' text
                \<or> sublist zh_boy text \<or> sublist zh_male text
             then query_params\<lparr>q_gender := Some ''Male''\<rparr>
             else query_params);
          query_params =
            (if sublist ''computer science'' text \<or> sublist ''cs'' text
                \<or> sublist ''software engineering'' text
                \<or> sublist zh_computer text \<or> sublist zh_software_engineering text
             then query_params\<lparr>q_major := Some ''Computer Science''\<rparr>
             else if sublist ''finance'' text \<or> sublist ''business'' text
                \<or> sublist zh_finance text
             then query_params\<lparr>q_major := Some ''Finance''\<rparr>
             else query_params)
      in query_params)"

text \<open>
  Step 4 and the return. Both failures are raised as the base class \<^verbatim>\<open>StudentError\<close>,
  told apart only by their message.
\<close>

definition parse_query :: "string \<Rightarrow> exn + query_params" where
  "parse_query natural_language_text =
     (let text = lower natural_language_text;
          query_params = extract_params text
      in if query_params = no_params
            \<and> (sublist ''about'' text \<or> sublist ''who is'' text
               \<or> sublist zh_about text \<or> sublist zh_who_is text)
         then Inl (StudentError
           ''LLM failed to extract valid filtering parameters from the natural language input. Please try a more specific query.'')
         else if query_params = no_params
         then Inl (StudentError ''LLM Parsing Failed: No valid filtering conditions were recognized.'')
         else Inr query_params)"

section \<open>The storage (student\_storage.py)\<close>

text \<open>
  The data file is absent, or holds bytes that \<^verbatim>\<open>pickle.load\<close> raises on, or holds
  the pickle of a dictionary, which \<^verbatim>\<open>pickle.load\<close> gives back. What the storage
  prints on the console is not modelled.
\<close>

datatype data_file = NoFile | Unreadable | Pickled store

definition load_data :: "data_file \<Rightarrow> store" where
  "load_data f = (case f of NoFile \<Rightarrow> [] | Unreadable \<Rightarrow> [] | Pickled students \<Rightarrow> students)"

text \<open>
  What the operating system does with a write: it goes through; or \<^verbatim>\<open>open\<close> raises
  and the file is as it was; or \<^verbatim>\<open>pickle.dump\<close> raises after \<^verbatim>\<open>open(..., "wb")\<close>
  has truncated the file. \<^verbatim>\<open>save_data\<close> catches every \<^verbatim>\<open>Exception\<close> of the two,
  prints it and returns.
\<close>

datatype io = WriteOk | OpenFails | DumpFails

definition save_data :: "io \<Rightarrow> store \<Rightarrow> data_file \<Rightarrow> (exn + unit) \<times> data_file" where
  "save_data w students f =
     (case w of
        WriteOk \<Rightarrow> (Inr (), Pickled students)
      | OpenFails \<Rightarrow> (Inr (), f)
      | DumpFails \<Rightarrow> (Inr (), Unreadable))"

text \<open>
  The storage is injected into the manager: \<^verbatim>\<open>__init__\<close> takes the store from its
  \<^verbatim>\<open>load_data\<close>, and \<^verbatim>\<open>save_and_exit\<close> hands the store to its \<^verbatim>\<open>save_data\<close>.
\<close>

definition manager_init :: "('f \<Rightarrow> store) \<Rightarrow> 'f \<Rightarrow> store" where
  "manager_init load f = load f"


section \<open>The notions of the specification\<close>

text \<open>
  The five validation rules as the specification words them: the messages of the rules a
  candidate violates, in the order of the rules.
\<close>

definition rule_violations :: "string \<Rightarrow> string \<Rightarrow> int \<Rightarrow> string \<Rightarrow> string \<Rightarrow> string list" where
  "rule_violations i n a g m =
     (if i = [] \<or> \<not> isalnum i then [''ID must be non-empty alphanumeric.''] else []) @
     (if n = [] then [''Name cannot be empty.''] else []) @
     (if a < 1 \<or> 150 < a then [''Age must be an integer between 1-150.''] else []) @
     (if g = ''Male'' \<or> g = ''Female'' then [] else [''Gender must be 'Male' or 'Female'.'']) @
     (if m = [] then [''Major cannot be empty.''] else [])"


text \<open>
  The invariant of the store: every key is the id of the record it maps to, and no two
  records share an id.
\<close>

definition store_inv :: "store \<Rightarrow> bool" where
  "store_inv st = (list_all (\<lambda>(k, s). sid s = k) st \<and> distinct (map (\<lambda>(k, s). sid s) st))"

text \<open>
  The five filters of the natural-language query, each a predicate on one record that
  holds of every record when its key is absent from the mapping.
\<close>

datatype filter_key = Major | Gender | AgeMin | AgeMax | NamePart

fun matches :: "query_params \<Rightarrow> filter_key \<Rightarrow> student \<Rightarrow> bool" where
  "matches qp Major s = (case q_major qp of None \<Rightarrow> True | Some v \<Rightarrow> major s = v)"
| "matches qp Gender s = (case q_gender qp of None \<Rightarrow> True | Some v \<Rightarrow> gender s = v)"
| "matches qp AgeMin s = (case q_age_min qp of None \<Rightarrow> True | Some v \<Rightarrow> v \<le> age s)"
| "matches qp AgeMax s = (case q_age_max qp of None \<Rightarrow> True | Some v \<Rightarrow> age s \<le> v)"
| "matches qp NamePart s =
     (case q_name_part qp of None \<Rightarrow> True | Some v \<Rightarrow> sublist (lower v) (lower (name s)))"

definition apply_filter :: "query_params \<Rightarrow> filter_key \<Rightarrow> student list \<Rightarrow> student list" where
  "apply_filter qp k results = filter (matches qp k) results"

text \<open>The keywords the agent recognises a filter parameter by.\<close>

definition cue_words :: "string list" where
  "cue_words =
     [''greater than 20'', ''over 20'', ''20+'', zh_greater_than_20, zh_20_and_above,
      ''less than 18'', ''under 18'', zh_less_than_18, zh_18_and_below,
      ''female'', ''girl'', zh_girl, zh_female, ''male'', ''boy'', zh_boy, zh_male,
      ''computer science'', ''cs'', ''software engineering'', zh_computer,
      zh_software_engineering, ''finance'', ''business'', zh_finance]"

definition no_cue :: "string \<Rightarrow> bool" where
  "no_cue text = list_all (\<lambda>w. \<not> sublist w (lower text)) cue_words"

text \<open>The two records of the specification's example, and a store holding them.\<close>

definition s1 :: student where
  "s1 = \<lparr>sid = ''S1'', name = ''Ann'', age = 25, gender = ''Female'', major = ''Finance''\<rparr>"

definition s2 :: student where
  "s2 = \<lparr>sid = ''S2'', name = ''Bob'', age = 17, gender = ''Male'',
          major = ''Computer Science''\<rparr>"

definition example_store :: store where
  "example_store = [(''S1'', s1), (''S2'', s2)]"

section \<open>Validation and the add and update paths\<close>

lemma validate_by_violations:
  "validate_student_data i n a g m =
     (case rule_violations i n a g m of
        [] \<Rightarrow> Inr True
      | msg # _ \<Rightarrow> Inl (StudentError msg))"
  by (simp add: validate_student_data_def rule_violations_def)



text \<open>
  Claim C4. Adding a record whose id is a key of the store raises
  \<^verbatim>\<open>StudentAlreadyExistsError\<close> and leaves the store as it was, entry for entry.
\<close>

theorem add_student_duplicate:
  "contains_key st (sid s) \<Longrightarrow>
   add_student st s = (Inl (StudentAlreadyExistsError (sid s)), st)"
  by (simp add: add_student_def)

theorem add_student_duplicate_witness:
  "contains_key example_store (sid (s1\<lparr>name := ''Zoe'', age := 0\<rparr>))
   \<and> add_student example_store (s1\<lparr>name := ''Zoe'', age := 0\<rparr>)
       = (Inl (StudentAlreadyExistsError ''S1''), example_store)"
proof -
  have k: "contains_key example_store (sid (s1\<lparr>name := ''Zoe'', age := 0\<rparr>))"
    by code_simp
  have i: "sid (s1\<lparr>name := ''Zoe'', age := 0\<rparr>) = ''S1''"
    by (simp add: s1_def)
  from add_student_duplicate [OF k] k i show ?thesis
    by simp
qed

text \<open>
  Claim C5. A record that violates none of the five rules and whose id is not a key of the
  store is added without an error, and looking its id up in the resulting store returns a
  record equal to it in every field.
\<close>

theorem add_then_query_by_id:
  "rule_violations (sid s) (name s) (age s) (gender s) (major s) = [] \<Longrightarrow>
   \<not> contains_key st (sid s) \<Longrightarrow>
   fst (add_student st s) = Inr ()
   \<and> query_student_by_id (snd (add_student st s)) (sid s) = Inr s"
  by (simp add: add_student_def validate_by_violations query_student_by_id_def update_conv')

theorem add_then_query_by_id_witness:
  "rule_violations (sid s2) (name s2) (age s2) (gender s2) (major s2) = []
   \<and> \<not> contains_key [(''S1'', s1)] (sid s2)
   \<and> fst (add_student [(''S1'', s1)] s2) = Inr ()
   \<and> query_student_by_id (snd (add_student [(''S1'', s1)] s2)) (sid s2) = Inr s2"
proof -
  have v: "rule_violations (sid s2) (name s2) (age s2) (gender s2) (major s2) = []"
    by code_simp
  have k: "\<not> contains_key [(''S1'', s1)] (sid s2)"
    by code_simp
  from add_then_query_by_id [OF v k] v k show ?thesis
    by simp
qed

section \<open>The invariant of the store\<close>

lemma store_inv_keys: "store_inv st \<Longrightarrow> map (\<lambda>(k, s). sid s) st = map fst st"
  by (induction st) (auto simp add: store_inv_def)


text \<open>The invariant only looks at the key and the id of each entry.\<close>

lemma store_inv_by_ids:
  "store_inv st =
     (list_all (\<lambda>(k, i). i = k) (map (\<lambda>(k, s). (k, sid s)) st)
      \<and> distinct (map snd (map (\<lambda>(k, s). (k, sid s)) st)))"
  by (simp add: store_inv_def list_all_iff case_prod_unfold comp_def)

lemma update_absent: "k \<notin> fst ` set st \<Longrightarrow> AList.update k v st = st @ [(k, v)]"
  by (induction st) auto

lemma update_same_id:
  "map_of st k = Some s \<Longrightarrow> sid s' = sid s \<Longrightarrow>
   map (\<lambda>(k, s). (k, sid s)) (AList.update k s' st) = map (\<lambda>(k, s). (k, sid s)) st"
  by (induction st) (auto split: if_splits)

lemma modify_student_ids:
  "map (\<lambda>(k, s). (k, sid s)) (snd (modify_student st k upd)) =
   map (\<lambda>(k, s). (k, sid s)) st"
proof (cases "map_of st k")
  case None
  then show ?thesis
    by (simp add: modify_student_def query_student_by_id_def)
next
  case (Some s)
  then show ?thesis
    by (simp add: modify_student_def query_student_by_id_def Let_def update_same_id
        split: sum.splits)
qed

lemma add_student_inv: "store_inv st \<Longrightarrow> store_inv (snd (add_student st s))"
proof -
  assume inv: "store_inv st"
  have "store_inv (AList.update (sid s) s st)" if new: "\<not> contains_key st (sid s)"
  proof -
    from new have n: "sid s \<notin> fst ` set st"
      by (simp add: contains_key_def)
    then have n': "sid s \<notin> set (map (\<lambda>(k, s). sid s) st)"
      unfolding store_inv_keys [OF inv] by simp
    from inv n' show ?thesis
      unfolding update_absent [OF n] store_inv_def by simp
  qed
  with inv show ?thesis
    by (simp add: add_student_def split: sum.splits)
qed

lemma delete_student_inv: "store_inv st \<Longrightarrow> store_inv (snd (delete_student st k))"
  by (auto simp add: delete_student_def store_inv_def AList.delete_eq list_all_iff
      distinct_map_filter)

text \<open>
  Claim C6, as amended. The invariant (every key is the id of its record, no two records
  share an id) holds of the store the manager starts with when the data file is absent or
  unreadable, and when the file holds a mapping that satisfies it, as the file written by a
  save of a store that satisfies it does. Add, update and delete preserve it, whether they
  succeed or raise. An update leaves the key and the id of every entry as they were, for
  every store and every dictionary of updates.
\<close>

theorem store_inv_preserved:
  "store_inv (manager_init load_data NoFile)
   \<and> store_inv (manager_init load_data Unreadable)
   \<and> (store_inv st \<longrightarrow>
        store_inv (manager_init load_data (Pickled st))
        \<and> store_inv (manager_init load_data (snd (save_data WriteOk st f)))
        \<and> store_inv (snd (add_student st s))
        \<and> store_inv (snd (modify_student st k upd))
        \<and> store_inv (snd (delete_student st k')))
   \<and> map (\<lambda>(k, s). (k, sid s)) (snd (modify_student st k upd)) =
       map (\<lambda>(k, s). (k, sid s)) st"
proof -
  have a: "store_inv (manager_init load_data NoFile)"
    and b: "store_inv (manager_init load_data Unreadable)"
    by (simp_all add: manager_init_def load_data_def store_inv_def)
  have c: "store_inv (manager_init load_data (Pickled st))"
    and d: "store_inv (manager_init load_data (snd (save_data WriteOk st f)))"
    if "store_inv st"
    using that by (simp_all add: manager_init_def load_data_def save_data_def)
  have e: "store_inv (snd (modify_student st k upd))" if "store_inv st"
    using that unfolding store_inv_by_ids modify_student_ids .
  from a b c d e add_student_inv delete_student_inv modify_student_ids show ?thesis
    by blast
qed

theorem store_inv_preserved_witness:
  "store_inv example_store
   \<and> store_inv (manager_init load_data (Pickled example_store))
   \<and> store_inv (snd (add_student example_store (s1\<lparr>sid := ''S3''\<rparr>)))
   \<and> store_inv (snd (modify_student example_store ''S2''
        \<lparr>u_name = Some ''Rob'', u_age = None, u_gender = None, u_major = None,
           u_other = [(''sid'', ''S1'')]\<rparr>))
   \<and> store_inv (snd (delete_student example_store ''S1''))"
proof -
  have i: "store_inv example_store"
    by code_simp
  from store_inv_preserved
    [of example_store NoFile "s1\<lparr>sid := ''S3''\<rparr>" "''S2''"
        "\<lparr>u_name = Some ''Rob'', u_age = None, u_gender = None, u_major = None,
           u_other = [(''sid'', ''S1'')]\<rparr>" "''S1''"] i
  show ?thesis
    by blast
qed

text \<open>
  The claim as written fails at the load: \<^verbatim>\<open>load_data\<close> returns the unpickled
  dictionary as it is, and a data file may hold a record under a key that is not its id.
\<close>

theorem load_breaks_store_inv:
  "\<not> store_inv (manager_init load_data (Pickled [(''A'', s1)]))"
  by code_simp

section \<open>Listing all students\<close>







section \<open>Searching by name\<close>


section \<open>The filters of the natural-language query\<close>

lemma fold_apply_filter:
  "fold (apply_filter qp) ks xs = filter (\<lambda>s. \<forall>k\<in>set ks. matches qp k s) xs"
proof (induction ks arbitrary: xs)
  case Nil
  then show ?case by simp
next
  case (Cons k ks)
  have "fold (apply_filter qp) (k # ks) xs = fold (apply_filter qp) ks (apply_filter qp k xs)"
    by simp
  also have "\<dots> = filter (\<lambda>s. \<forall>k\<in>set ks. matches qp k s) (apply_filter qp k xs)"
    by (rule Cons.IH)
  also have "\<dots> = filter (\<lambda>s. \<forall>k'\<in>set (k # ks). matches qp k' s) xs"
    unfolding apply_filter_def filter_filter by (rule filter_cong) auto
  finally show ?case .
qed

lemma query_as_fold:
  "query_by_natural_language parse st text =
     (case parse text of
        Inl e \<Rightarrow> Inl e
      | Inr qp \<Rightarrow>
          Inr (fold (apply_filter qp) [Major, Gender, AgeMin, AgeMax, NamePart] (map snd st)))"
  by (simp add: query_by_natural_language_def apply_filter_def Let_def
      split: sum.splits option.splits)

text \<open>
  Claim C1, as amended. \<^verbatim>\<open>query_by_natural_language\<close> raises what the agent raises;
  otherwise it narrows the records of the store by the filters major, gender, age\_min,
  age\_max and name\_part in this order, a filter whose key is absent from the mapping
  keeping every record, and returns the narrowed list, which may be empty. The parameter
  mapping is not part of what it returns. On the two records of the example and the
  mapping of gender Female and age\_min 20 the result is the record S1 alone, whatever
  the two names and the text.
\<close>

theorem query_filters_in_order:
  "query_by_natural_language parse st text =
     (case parse text of
        Inl e \<Rightarrow> Inl e
      | Inr qp \<Rightarrow>
          Inr (fold (apply_filter qp) [Major, Gender, AgeMin, AgeMax, NamePart] (map snd st)))
   \<and> query_by_natural_language
        (\<lambda>_. Inr \<lparr>q_major = None, q_gender = Some ''Female'', q_age_min = Some 20,
                   q_age_max = None, q_name_part = None\<rparr>)
        [(''S1'', \<lparr>sid = ''S1'', name = n1, age = 25, gender = ''Female'',
                    major = ''Finance''\<rparr>),
         (''S2'', \<lparr>sid = ''S2'', name = n2, age = 17, gender = ''Male'',
                    major = ''Computer Science''\<rparr>)] text
       = Inr [\<lparr>sid = ''S1'', name = n1, age = 25, gender = ''Female'', major = ''Finance''\<rparr>]"
proof -
  have ex: "query_by_natural_language
        (\<lambda>_. Inr \<lparr>q_major = None, q_gender = Some ''Female'', q_age_min = Some 20,
                   q_age_max = None, q_name_part = None\<rparr>)
        [(''S1'', \<lparr>sid = ''S1'', name = n1, age = 25, gender = ''Female'',
                    major = ''Finance''\<rparr>),
         (''S2'', \<lparr>sid = ''S2'', name = n2, age = 17, gender = ''Male'',
                    major = ''Computer Science''\<rparr>)] text
       = Inr [\<lparr>sid = ''S1'', name = n1, age = 25, gender = ''Female'', major = ''Finance''\<rparr>]"
    by (simp add: query_by_natural_language_def)
  from query_as_fold ex show ?thesis
    by blast
qed

text \<open>
  The claim as written has the parameter mapping returned with the records. The value
  returned does not determine the mapping: on the empty store the queries ``female'' and
  ``male'' return the same value, and the agent maps them to different parameters.
\<close>

theorem query_result_without_params:
  "query_by_natural_language parse_query [] ''female'' = Inr []
   \<and> query_by_natural_language parse_query [] ''male'' = Inr []
   \<and> parse_query ''female'' \<noteq> parse_query ''male''"
  by code_simp

text \<open>
  Claim C10. When the agent returns a mapping, the query returns the records of the store
  that satisfy every one of the five predicates (a predicate whose key is absent holds of
  every record), and narrowing by the five filters taken in any order gives the same list.
\<close>

theorem query_filters_any_order:
  "parse text = Inr qp \<Longrightarrow>
   mset ks = mset [Major, Gender, AgeMin, AgeMax, NamePart] \<Longrightarrow>
   query_by_natural_language parse st text =
     Inr (filter (\<lambda>s. matches qp Major s \<and> matches qp Gender s \<and> matches qp AgeMin s
                       \<and> matches qp AgeMax s \<and> matches qp NamePart s) (map snd st))
   \<and> Inr (fold (apply_filter qp) ks (map snd st)) = query_by_natural_language parse st text"
proof -
  assume p: "parse text = Inr qp"
    and m: "mset ks = mset [Major, Gender, AgeMin, AgeMax, NamePart]"
  let ?P = "\<lambda>s. matches qp Major s \<and> matches qp Gender s \<and> matches qp AgeMin s
                 \<and> matches qp AgeMax s \<and> matches qp NamePart s"
  from m have "set ks = set [Major, Gender, AgeMin, AgeMax, NamePart]"
    by (rule mset_eq_setD)
  then have s: "set ks = {Major, Gender, AgeMin, AgeMax, NamePart}"
    by simp
  have q: "query_by_natural_language parse st text = Inr (filter ?P (map snd st))"
    unfolding query_as_fold p fold_apply_filter by (simp del: matches.simps)
  have f: "fold (apply_filter qp) ks (map snd st) = filter ?P (map snd st)"
    unfolding fold_apply_filter s by (simp del: matches.simps)
  from q f show ?thesis
    by simp
qed

theorem query_filters_any_order_witness:
  "parse_query ''all females over 20'' =
     Inr \<lparr>q_major = None, q_gender = Some ''Female'', q_age_min = Some 20,
          q_age_max = None, q_name_part = None\<rparr>
   \<and> mset [NamePart, AgeMin, Major, AgeMax, Gender] =
       mset [Major, Gender, AgeMin, AgeMax, NamePart]
   \<and> query_by_natural_language parse_query example_store ''all females over 20'' = Inr [s1]
   \<and> Inr (fold (apply_filter \<lparr>q_major = None, q_gender = Some ''Female'',
                              q_age_min = Some 20, q_age_max = None, q_name_part = None\<rparr>)
          [NamePart, AgeMin, Major, AgeMax, Gender] (map snd example_store))
       = query_by_natural_language parse_query example_store ''all females over 20''"
proof -
  let ?qp = "\<lparr>q_major = None, q_gender = Some ''Female'', q_age_min = Some 20,
              q_age_max = None, q_name_part = None\<rparr>"
  have p: "parse_query ''all females over 20'' = Inr ?qp"
    by code_simp
  have m: "mset [NamePart, AgeMin, Major, AgeMax, Gender] =
      mset [Major, Gender, AgeMin, AgeMax, NamePart]"
    by simp
  have v: "filter (\<lambda>s. matches ?qp Major s \<and> matches ?qp Gender s \<and> matches ?qp AgeMin s
                       \<and> matches ?qp AgeMax s \<and> matches ?qp NamePart s)
             (map snd example_store) = [s1]"
    by (simp add: example_store_def s1_def s2_def)
  from query_filters_any_order
    [of parse_query "''all females over 20''" ?qp "[NamePart, AgeMin, Major, AgeMax, Gender]"
        example_store] p m v
  show ?thesis
    by simp
qed

section \<open>The query agent\<close>

lemma sequential_updates:
  "(let query_params = no_params;
        query_params = (if c1 then query_params\<lparr>q_age_min := Some a1\<rparr> else query_params);
        query_params = (if c2 then query_params\<lparr>q_age_max := Some a2\<rparr> else query_params);
        query_params = (if c3 then query_params\<lparr>q_gender := Some g1\<rparr>
                        else if c4 then query_params\<lparr>q_gender := Some g2\<rparr>
                        else query_params);
        query_params = (if c5 then query_params\<lparr>q_major := Some m1\<rparr>
                        else if c6 then query_params\<lparr>q_major := Some m2\<rparr>
                        else query_params)
    in query_params) =
   \<lparr>q_major = (if c5 then Some m1 else if c6 then Some m2 else None),
    q_gender = (if c3 then Some g1 else if c4 then Some g2 else None),
    q_age_min = (if c1 then Some a1 else None),
    q_age_max = (if c2 then Some a2 else None),
    q_name_part = None\<rparr>"
  by (simp add: no_params_def Let_def)

lemma extract_params_fields:
  "extract_params t =
   \<lparr>q_major =
      (if sublist ''computer science'' t \<or> sublist ''cs'' t \<or> sublist ''software engineering'' t
          \<or> sublist zh_computer t \<or> sublist zh_software_engineering t
       then Some ''Computer Science''
       else if sublist ''finance'' t \<or> sublist ''business'' t \<or> sublist zh_finance t
       then Some ''Finance'' else None),
    q_gender =
      (if sublist ''female'' t \<or> sublist ''girl'' t \<or> sublist zh_girl t \<or> sublist zh_female t
       then Some ''Female''
       else if sublist ''male'' t \<or> sublist ''boy'' t \<or> sublist zh_boy t \<or> sublist zh_male t
       then Some ''Male'' else None),
    q_age_min =
      (if sublist ''greater than 20'' t \<or> sublist ''over 20'' t \<or> sublist ''20+'' t
          \<or> sublist zh_greater_than_20 t \<or> sublist zh_20_and_above t
       then Some 20 else None),
    q_age_max =
      (if sublist ''less than 18'' t \<or> sublist ''under 18'' t
          \<or> sublist zh_less_than_18 t \<or> sublist zh_18_and_below t
       then Some 18 else None),
    q_name_part = None\<rparr>"
  unfolding extract_params_def by (rule sequential_updates)

text \<open>The agent extracts no parameter exactly when no keyword occurs in the lowered text.\<close>

lemma extract_none_iff: "extract_params (lower text) = no_params \<longleftrightarrow> no_cue text"
  unfolding extract_params_fields no_params_def no_cue_def cue_words_def
  by (simp only: query_params.simps list.pred_inject simp_thms split: if_splits) blast

text \<open>
  Claim C8. \<^verbatim>\<open>parse_query\<close> raises on ``who is tall''. More generally, on a text in
  which none of the agent's keywords occurs, which is when the agent extracts no parameter,
  it raises a \<^verbatim>\<open>StudentError\<close>, and when the text moreover contains ``about'' or
  ``who is'', in whatever case, the error is the one of a failed extraction.
\<close>

theorem parse_query_no_cue_fails:
  "parse_query ''who is tall'' =
     Inl (StudentError
       ''LLM failed to extract valid filtering parameters from the natural language input. Please try a more specific query.'')
   \<and> (extract_params (lower text) = no_params \<longleftrightarrow> no_cue text)
   \<and> (no_cue text \<and> (sublist ''about'' (lower text) \<or> sublist ''who is'' (lower text))
      \<longrightarrow> parse_query text =
         Inl (StudentError
           ''LLM failed to extract valid filtering parameters from the natural language input. Please try a more specific query.''))
   \<and> (no_cue text \<longrightarrow> (\<exists>msg. parse_query text = Inl (StudentError msg)))"
proof -
  have a: "parse_query ''who is tall'' =
     Inl (StudentError
       ''LLM failed to extract valid filtering parameters from the natural language input. Please try a more specific query.'')"
    by code_simp
  have b: "no_cue text \<and> (sublist ''about'' (lower text) \<or> sublist ''who is'' (lower text))
      \<longrightarrow> parse_query text =
         Inl (StudentError
           ''LLM failed to extract valid filtering parameters from the natural language input. Please try a more specific query.'')"
    unfolding parse_query_def Let_def extract_none_iff by simp
  have c: "no_cue text \<longrightarrow> (\<exists>msg. parse_query text = Inl (StudentError msg))"
    unfolding parse_query_def Let_def extract_none_iff by simp
  from a b c extract_none_iff show ?thesis
    by blast
qed

theorem parse_query_no_cue_fails_witness:
  "no_cue ''Tell me ABOUT Ann''
   \<and> sublist ''about'' (lower ''Tell me ABOUT Ann'')
   \<and> parse_query ''Tell me ABOUT Ann'' =
       Inl (StudentError
         ''LLM failed to extract valid filtering parameters from the natural language input. Please try a more specific query.'')"
proof -
  have h: "no_cue ''Tell me ABOUT Ann'' \<and> sublist ''about'' (lower ''Tell me ABOUT Ann'')"
    by code_simp
  from parse_query_no_cue_fails [of "''Tell me ABOUT Ann''"] h show ?thesis
    by blast
qed

section \<open>Saving\<close>



end
